theory Spec2Isabelle
  imports Complex_Main "HOL-Library.Word"
begin

section \<open>Numbers and typed arrays\<close>

text \<open>
  JavaScript numbers are IEEE 754 doubles. A finite double is modelled as the real number
  it denotes, and every arithmetic operation of the source returns the exact result
  rounded to the nearest double, ties to even: \<open>fl\<close>. The exponent range is taken as
  unbounded, so overflow to \<open>Infinity\<close> and gradual underflow (magnitudes above
  \<open>1.8e308\<close> or below \<open>2.3e-308\<close>) are left out. \<open>Infinity\<close> and \<open>NaN\<close> arise in
  this program only from a division by zero and from reading past the end of an array;
  each place where that can happen is written out. \<open>Math.floor\<close> is \<^const>\<open>floor\<close>,
  \<open>Math.round\<close> rounds half up, \<open>%\<close> truncates towards zero, and all three are exact.
  \<open>Math.PI\<close> is the double nearest to \<open>\<pi>\<close>, and \<open>Math.sin\<close> is taken to return the
  double nearest to the sine.
\<close>

definition expo :: "real \<Rightarrow> int" where
  "expo x = \<lfloor>log 2 \<bar>x\<bar>\<rfloor>"

definition ulp :: "real \<Rightarrow> real" where
  "ulp x = 2 powr (of_int (expo x) - 52)"

definition round_even :: "real \<Rightarrow> int" where
  "round_even y =
     (let f = \<lfloor>y\<rfloor>
      in if y - of_int f < 1 / 2 then f
         else if y - of_int f > 1 / 2 then f + 1
         else if even f then f else f + 1)"

definition fl :: "real \<Rightarrow> real" where
  "fl x = (if x = 0 then 0 else ulp x * of_int (round_even (x / ulp x)))"

text \<open>The unit roundoff of doubles.\<close>

definition eps :: real where
  "eps = 2 powr (- 53)"

definition fadd :: "real \<Rightarrow> real \<Rightarrow> real" where
  "fadd a b = fl (a + b)"

definition fsub :: "real \<Rightarrow> real \<Rightarrow> real" where
  "fsub a b = fl (a - b)"

definition fmul :: "real \<Rightarrow> real \<Rightarrow> real" where
  "fmul a b = fl (a * b)"

text \<open>Division by a divisor that is known not to be zero.\<close>

definition fdiv :: "real \<Rightarrow> real \<Rightarrow> real" where
  "fdiv a b = fl (a / b)"

definition Math_PI :: real where
  "Math_PI = fl pi"

definition Math_sin :: "real \<Rightarrow> real" where
  "Math_sin x = fl (sin x)"

definition Math_round :: "real \<Rightarrow> int" where
  "Math_round x = \<lfloor>x + 1 / 2\<rfloor>"

definition js_rem :: "real \<Rightarrow> real \<Rightarrow> real" where
  "js_rem a b = a - b * of_int (if 0 \<le> a / b then \<lfloor>a / b\<rfloor> else \<lceil>a / b\<rceil>)"

text \<open>
  A number that may not be finite: the quotient by a divisor that can be zero, and what
  is computed from it.
\<close>

datatype jsnum = Fin real | PosInf | NegInf | NaN

definition js_div :: "real \<Rightarrow> real \<Rightarrow> jsnum" where
  "js_div a b =
     (if b \<noteq> 0 then Fin (fl (a / b))
      else if 0 < a then PosInf else if a < 0 then NegInf else NaN)"

fun js_min :: "jsnum \<Rightarrow> jsnum \<Rightarrow> jsnum" where
  "js_min NaN y = NaN"
| "js_min x NaN = NaN"
| "js_min NegInf y = NegInf"
| "js_min x NegInf = NegInf"
| "js_min PosInf y = y"
| "js_min x PosInf = x"
| "js_min (Fin a) (Fin b) = Fin (min a b)"

fun js_times :: "real \<Rightarrow> jsnum \<Rightarrow> jsnum" where
  "js_times a (Fin b) = Fin (fl (a * b))"
| "js_times a PosInf = (if 0 < a then PosInf else if a < 0 then NegInf else NaN)"
| "js_times a NegInf = (if 0 < a then NegInf else if a < 0 then PosInf else NaN)"
| "js_times a NaN = NaN"

text \<open>
  A \<open>Uint8Array\<close> is a list of 8-bit words; reading past its end gives \<open>undefined\<close>,
  which is \<open>None\<close> here.
\<close>

type_synonym Uint8Array = "8 word list"

definition byte_val :: "8 word \<Rightarrow> real" where
  "byte_val b = real (unat b)"

definition rd :: "Uint8Array \<Rightarrow> nat \<Rightarrow> real option" where
  "rd audioData i = (if i < length audioData then Some (byte_val (audioData ! i)) else None)"

section \<open>types.ts\<close>

datatype VisualizationType = LINEAR | CIRCULAR

datatype LinearGraphStyle = bars | waveform

datatype ColorTheme = sky | sunset | forest | neon_dreams

text \<open>
  A fill or stroke style. The source builds CSS strings; the \<open>hsla(...)\<close> template of
  \<open>circularFill\<close> is kept as its four numbers, and a gradient as its line and its stops.
\<close>

datatype style =
    Css string
  | Hsla real real real real
  | Gradient real real real real "(real \<times> string) list"

record ColorPaletteDefinition =
  name :: string
  barGradient :: "string list"
  waveformStroke :: string
  circularFill :: "real \<Rightarrow> real \<Rightarrow> style"
  background :: string
  textColor :: string

fun PALETTES :: "ColorTheme \<Rightarrow> ColorPaletteDefinition" where
  "PALETTES sky = \<lparr>name = ''Sky'',
     barGradient = [''rgb(14, 165, 233)'', ''rgb(56, 189, 248)'', ''rgb(125, 211, 252)''],
     waveformStroke = ''rgb(56, 189, 248)'',
     circularFill = (\<lambda>hue alpha. Hsla (js_rem (fadd (fmul hue 300) 180) 360) 90 65 alpha),
     background = ''rgba(15, 23, 42, 1)'',
     textColor = ''rgba(203, 213, 225, 0.7)''\<rparr>"
| "PALETTES sunset = \<lparr>name = ''Sunset'',
     barGradient = [''#F97316'', ''#FDBA74'', ''#FECACA''],
     waveformStroke = ''#F97316'',
     circularFill = (\<lambda>hue alpha. Hsla (js_rem (fadd (fmul hue 40) 10) 360) 100 60 alpha),
     background = ''rgba(30, 20, 10, 1)'',
     textColor = ''rgba(253, 186, 116, 0.8)''\<rparr>"
| "PALETTES forest = \<lparr>name = ''Forest'',
     barGradient = [''#16A34A'', ''#4ADE80'', ''#BBF7D0''],
     waveformStroke = ''#16A34A'',
     circularFill = (\<lambda>hue alpha. Hsla (js_rem (fadd (fmul hue 60) 90) 360) 70 50 alpha),
     background = ''rgba(10, 25, 15, 1)'',
     textColor = ''rgba(134, 239, 172, 0.8)''\<rparr>"
| "PALETTES neon_dreams = \<lparr>name = ''Neon Dreams'',
     barGradient = [''#EC4899'', ''#F472B6'', ''#F9A8D4''],
     waveformStroke = ''#DB2777'',
     circularFill = (\<lambda>hue alpha. Hsla (js_rem (fadd (fmul hue 360) 280) 360) 100 65 alpha),
     background = ''rgba(20, 5, 30, 1)'',
     textColor = ''rgba(240, 171, 252, 0.8)''\<rparr>"

section \<open>The 2D rendering context\<close>

text \<open>
  The canvas is a collaborator of the program. Its model keeps what the drawing routines
  can observe or change: the drawing state (the part that \<open>save\<close> pushes and \<open>restore\<close>
  pops), the stack of saved states, the current path (which is not part of the drawing
  state), and the list of painting operations issued so far, each with the drawing state
  it was issued under. Pixels are a function of that list. Setters ignore the values the
  canvas ignores, and \<open>drawImage\<close> draws nothing from an image whose natural width or
  height is zero.
\<close>

record HTMLImageElement =
  naturalWidth :: nat
  naturalHeight :: nat

datatype xform = Translate real real | Rotate real

datatype path_op =
    MoveTo real real
  | LineTo real real
  | ArcTo real real real real real
  | Arc real real real real real bool
  | ClosePath

record draw_state =
  fillStyle :: style
  strokeStyle :: style
  globalAlpha :: real
  lineWidth :: real
  transform :: "xform list"
  clip :: "(xform list \<times> path_op list) list"

datatype paint =
    FillRect draw_state real real real real
  | Fill draw_state "path_op list"
  | Stroke draw_state "path_op list"
  | DrawImage draw_state HTMLImageElement real real real real

record CanvasRenderingContext2D =
  state :: draw_state
  stack :: "draw_state list"
  path :: "path_op list"
  painted :: "paint list"

definition ctx_save :: "CanvasRenderingContext2D \<Rightarrow> CanvasRenderingContext2D" where
  "ctx_save ctx = ctx\<lparr>stack := state ctx # stack ctx\<rparr>"

definition ctx_restore :: "CanvasRenderingContext2D \<Rightarrow> CanvasRenderingContext2D" where
  "ctx_restore ctx = (case stack ctx of [] \<Rightarrow> ctx | s # ss \<Rightarrow> ctx\<lparr>state := s, stack := ss\<rparr>)"

definition ctx_translate :: "real \<Rightarrow> real \<Rightarrow> CanvasRenderingContext2D \<Rightarrow> CanvasRenderingContext2D" where
  "ctx_translate x y ctx = ctx\<lparr>state := (state ctx)\<lparr>transform := transform (state ctx) @ [Translate x y]\<rparr>\<rparr>"

definition ctx_rotate :: "real \<Rightarrow> CanvasRenderingContext2D \<Rightarrow> CanvasRenderingContext2D" where
  "ctx_rotate a ctx = ctx\<lparr>state := (state ctx)\<lparr>transform := transform (state ctx) @ [Rotate a]\<rparr>\<rparr>"

definition set_fillStyle :: "style \<Rightarrow> CanvasRenderingContext2D \<Rightarrow> CanvasRenderingContext2D" where
  "set_fillStyle s ctx = ctx\<lparr>state := (state ctx)\<lparr>fillStyle := s\<rparr>\<rparr>"

definition set_strokeStyle :: "style \<Rightarrow> CanvasRenderingContext2D \<Rightarrow> CanvasRenderingContext2D" where
  "set_strokeStyle s ctx = ctx\<lparr>state := (state ctx)\<lparr>strokeStyle := s\<rparr>\<rparr>"

definition set_globalAlpha :: "real \<Rightarrow> CanvasRenderingContext2D \<Rightarrow> CanvasRenderingContext2D" where
  "set_globalAlpha a ctx =
     (if 0 \<le> a \<and> a \<le> 1 then ctx\<lparr>state := (state ctx)\<lparr>globalAlpha := a\<rparr>\<rparr> else ctx)"

definition set_lineWidth :: "real \<Rightarrow> CanvasRenderingContext2D \<Rightarrow> CanvasRenderingContext2D" where
  "set_lineWidth w ctx =
     (if 0 < w then ctx\<lparr>state := (state ctx)\<lparr>lineWidth := w\<rparr>\<rparr> else ctx)"

definition fillRect :: "real \<Rightarrow> real \<Rightarrow> real \<Rightarrow> real \<Rightarrow> CanvasRenderingContext2D \<Rightarrow> CanvasRenderingContext2D" where
  "fillRect x y w h ctx = ctx\<lparr>painted := painted ctx @ [FillRect (state ctx) x y w h]\<rparr>"

definition beginPath :: "CanvasRenderingContext2D \<Rightarrow> CanvasRenderingContext2D" where
  "beginPath ctx = ctx\<lparr>path := []\<rparr>"

definition add_path :: "path_op \<Rightarrow> CanvasRenderingContext2D \<Rightarrow> CanvasRenderingContext2D" where
  "add_path p ctx = ctx\<lparr>path := path ctx @ [p]\<rparr>"

definition ctx_clip :: "CanvasRenderingContext2D \<Rightarrow> CanvasRenderingContext2D" where
  "ctx_clip ctx = ctx\<lparr>state := (state ctx)\<lparr>clip := clip (state ctx) @ [(transform (state ctx), path ctx)]\<rparr>\<rparr>"

definition ctx_fill :: "CanvasRenderingContext2D \<Rightarrow> CanvasRenderingContext2D" where
  "ctx_fill ctx = ctx\<lparr>painted := painted ctx @ [Fill (state ctx) (path ctx)]\<rparr>"

definition ctx_stroke :: "CanvasRenderingContext2D \<Rightarrow> CanvasRenderingContext2D" where
  "ctx_stroke ctx = ctx\<lparr>painted := painted ctx @ [Stroke (state ctx) (path ctx)]\<rparr>"

definition drawImage :: "HTMLImageElement \<Rightarrow> real \<Rightarrow> real \<Rightarrow> real \<Rightarrow> real \<Rightarrow> CanvasRenderingContext2D \<Rightarrow> CanvasRenderingContext2D" where
  "drawImage img dx dy dw dh ctx =
     (if naturalWidth img = 0 \<or> naturalHeight img = 0 then ctx
      else ctx\<lparr>painted := painted ctx @ [DrawImage (state ctx) img dx dy dw dh]\<rparr>)"

text \<open>
  The geometry of \<open>arc(x, y, radius, startAngle, endAngle, counterclockwise)\<close>. Angles
  are measured clockwise from the positive x axis (the y axis points down), so the point
  of the circle at angle \<open>\<theta>\<close> is \<open>(x + r cos \<theta>, y + r sin \<theta>)\<close>. The arc runs from
  the start angle to the end angle, clockwise unless \<open>counterclockwise\<close> is set; a
  difference of \<open>2\<pi>\<close> or more in the direction of travel gives the whole circle.
  \<open>arc_sweep\<close> is the signed angle travelled and \<open>arc_mid\<close> the point halfway along the
  arc.
\<close>

definition pos_mod :: "real \<Rightarrow> real \<Rightarrow> real" where
  "pos_mod x m = x - m * of_int \<lfloor>x / m\<rfloor>"

definition arc_sweep :: "real \<Rightarrow> real \<Rightarrow> bool \<Rightarrow> real" where
  "arc_sweep a0 a1 ccw =
     (if ccw then - (if a0 - a1 \<ge> 2 * pi then 2 * pi else pos_mod (a0 - a1) (2 * pi))
      else (if a1 - a0 \<ge> 2 * pi then 2 * pi else pos_mod (a1 - a0) (2 * pi)))"

fun arc_mid :: "path_op \<Rightarrow> real \<times> real" where
  "arc_mid (Arc cx cy r a0 a1 ccw) =
     (cx + r * cos (a0 + arc_sweep a0 a1 ccw / 2), cy + r * sin (a0 + arc_sweep a0 a1 ccw / 2))"
| "arc_mid p = (0, 0)"

section \<open>visualizationRenderer: the frame renderer\<close>

datatype js_error = TypeError

record image_props =
  visualizationType :: VisualizationType
  imageScale :: real
  pulseIntensity :: real
  imageCornerRadius :: real
  imageSwingIntensity :: real
  enablePulse :: bool
  enableSwing :: bool
  currentTime :: real

record frame_props = image_props +
  linearGraphStyle :: LinearGraphStyle
  colorTheme :: ColorTheme
  centerImage :: "HTMLImageElement option"
  visualizerDetailScale :: real
  width :: real
  height :: real

subsection \<open>drawImageCore\<close>

definition baseScaleFactor :: "'a image_props_scheme \<Rightarrow> real" where
  "baseScaleFactor props = (if visualizationType props = CIRCULAR then 3.0 else 2.5)"

definition maxImgWidth :: "real \<Rightarrow> 'a image_props_scheme \<Rightarrow> real" where
  "maxImgWidth canvasW props = fmul (fdiv canvasW (baseScaleFactor props)) (imageScale props)"

definition maxImgHeight :: "real \<Rightarrow> 'a image_props_scheme \<Rightarrow> real" where
  "maxImgHeight canvasH props = fmul (fdiv canvasH (baseScaleFactor props)) (imageScale props)"

text \<open>
  \<open>Math.min\<close> of the two quotients and \<open>1 * imageScale\<close>. A natural dimension of zero
  makes its quotient infinite, or not a number when the ceiling is zero as well.
\<close>

definition imgScaleRatio :: "HTMLImageElement \<Rightarrow> real \<Rightarrow> real \<Rightarrow> 'a image_props_scheme \<Rightarrow> jsnum" where
  "imgScaleRatio img canvasW canvasH props =
     js_min (js_min (js_div (maxImgWidth canvasW props) (real (naturalWidth img)))
                    (js_div (maxImgHeight canvasH props) (real (naturalHeight img))))
            (Fin (fmul 1 (imageScale props)))"

text \<open>
  The pulse: with \<open>react\<close>, \<open>enablePulse\<close>, a non-empty spectral array and a positive
  intensity, the scale is \<open>1 + (average / 255) * (0.2 * pulseIntensity)\<close>, else \<open>1.0\<close>.
\<close>

definition currentBeatScale :: "Uint8Array option \<Rightarrow> 'a image_props_scheme \<Rightarrow> bool \<Rightarrow> real" where
  "currentBeatScale audioData props react =
     (case audioData of
        None \<Rightarrow> 1.0
      | Some a \<Rightarrow>
          if react \<and> enablePulse props \<and> length a > 0 \<and> pulseIntensity props > 0
          then (let sum = foldl (\<lambda>sum b. fadd sum (byte_val b)) 0 a;
                    average = fdiv sum (real (length a));
                    basePulseEffect = fl 0.2
                in fadd 1 (fmul (fdiv average 255) (fmul basePulseEffect (pulseIntensity props))))
          else 1.0)"

definition dWidth :: "HTMLImageElement \<Rightarrow> Uint8Array option \<Rightarrow> real \<Rightarrow> real \<Rightarrow> 'a image_props_scheme \<Rightarrow> bool \<Rightarrow> jsnum" where
  "dWidth img audioData canvasW canvasH props react =
     js_times (currentBeatScale audioData props react)
       (js_times (real (naturalWidth img)) (imgScaleRatio img canvasW canvasH props))"

definition dHeight :: "HTMLImageElement \<Rightarrow> Uint8Array option \<Rightarrow> real \<Rightarrow> real \<Rightarrow> 'a image_props_scheme \<Rightarrow> bool \<Rightarrow> jsnum" where
  "dHeight img audioData canvasW canvasH props react =
     js_times (currentBeatScale audioData props react)
       (js_times (real (naturalHeight img)) (imgScaleRatio img canvasW canvasH props))"

text \<open>The width and height handed to \<open>drawImage\<close>, when both are finite.\<close>

definition overlayBox :: "HTMLImageElement \<Rightarrow> Uint8Array option \<Rightarrow> real \<Rightarrow> real \<Rightarrow> 'a image_props_scheme \<Rightarrow> bool \<Rightarrow> (real \<times> real) option" where
  "overlayBox img audioData canvasW canvasH props react =
     (case dWidth img audioData canvasW canvasH props react of
        Fin dW \<Rightarrow>
          (case dHeight img audioData canvasW canvasH props react of
             Fin dH \<Rightarrow> Some (dW, dH)
           | PosInf \<Rightarrow> None | NegInf \<Rightarrow> None | NaN \<Rightarrow> None)
      | PosInf \<Rightarrow> None | NegInf \<Rightarrow> None | NaN \<Rightarrow> None)"

definition roundedClip :: "real \<Rightarrow> real \<Rightarrow> real \<Rightarrow> real \<Rightarrow> real \<Rightarrow> CanvasRenderingContext2D \<Rightarrow> CanvasRenderingContext2D" where
  "roundedClip dx dy dW dH cornerRadiusVal ctx =
     ctx_clip
      (add_path ClosePath
      (add_path (ArcTo dx dy (fadd dx dW) dy cornerRadiusVal)
      (add_path (ArcTo dx (fadd dy dH) dx dy cornerRadiusVal)
      (add_path (ArcTo (fadd dx dW) (fadd dy dH) dx (fadd dy dH) cornerRadiusVal)
      (add_path (ArcTo (fadd dx dW) dy (fadd dx dW) (fadd dy dH) cornerRadiusVal)
      (add_path (MoveTo (fadd dx cornerRadiusVal) dy)
      (beginPath ctx)))))))"

text \<open>
  When the width or the height is not finite, neither is positive, so no clip is set,
  and \<open>drawImage\<close> returns without drawing.
\<close>

definition drawImageCore ::
  "CanvasRenderingContext2D \<Rightarrow> HTMLImageElement \<Rightarrow> Uint8Array option \<Rightarrow> real \<Rightarrow> real \<Rightarrow>
   'a image_props_scheme \<Rightarrow> bool \<Rightarrow> CanvasRenderingContext2D" where
  "drawImageCore ctx img audioData canvasW canvasH props react =
     (let c1 = ctx_save ctx;
          swing = (react \<and> enableSwing props \<and> imageSwingIntensity props > 0);
          swingSpeedFactor = 0.5;
          currentSwingAngleRad =
            fmul (Math_sin (fmul (currentTime props) swingSpeedFactor))
                 (fdiv (fmul (imageSwingIntensity props) Math_PI) 180);
          c2 = (if swing
                then ctx_rotate currentSwingAngleRad
                       (ctx_translate (fdiv canvasW 2) (fdiv canvasH 2) c1)
                else c1);
          c3 = set_globalAlpha (fl 0.9) c2
      in case overlayBox img audioData canvasW canvasH props react of
           None \<Rightarrow> ctx_restore c3
         | Some (dW, dH) \<Rightarrow>
            (let dxInitial = fdiv (fsub canvasW dW) 2;
                 dyInitial = fdiv (fsub canvasH dH) 2;
                 dx = (if swing then fdiv (- dW) 2 else dxInitial);
                 dy = (if swing then fdiv (- dH) 2 else dyInitial);
                 c4 = (if imageCornerRadius props > 0 \<and> dW > 0 \<and> dH > 0
                       then roundedClip dx dy dW dH
                              (fmul (fdiv (min dW dH) 2)
                                    (fdiv (min (imageCornerRadius props) 50) 50)) c3
                       else c3);
                 c5 = drawImage img dx dy dW dH c4
             in ctx_restore c5))"

subsection \<open>drawLinearBarsCore\<close>

text \<open>
  One iteration of the loop over the bars. A read past the end of the array gives a bar
  height that is not a number, and \<open>createLinearGradient\<close> throws a \<open>TypeError\<close> on it.
\<close>

fun linearBarsLoop ::
  "Uint8Array \<Rightarrow> real \<Rightarrow> ColorPaletteDefinition \<Rightarrow> real \<Rightarrow> real \<Rightarrow> real \<Rightarrow>
   nat list \<Rightarrow> real \<Rightarrow> CanvasRenderingContext2D \<Rightarrow> js_error + CanvasRenderingContext2D" where
  "linearBarsLoop audioData canvasH palette scale barWidth spacing [] x ctx = Inr ctx"
| "linearBarsLoop audioData canvasH palette scale barWidth spacing (i # rest) x ctx =
     (case rd audioData i of
        None \<Rightarrow> Inl TypeError
      | Some v \<Rightarrow>
          (let barHeightPercentage = fdiv v 255;
               barHeight = fmul (fmul (fmul barHeightPercentage canvasH) (fl 0.9)) scale;
               gradient = Gradient x canvasH x (fsub canvasH barHeight)
                            [(0, barGradient palette ! 0), (fl 0.6, barGradient palette ! 1),
                             (1, barGradient palette ! 2)];
               c1 = set_fillStyle gradient ctx;
               c2 = set_globalAlpha (max (fl 0.2) barHeightPercentage) c1;
               c3 = fillRect x (fsub canvasH barHeight) (max 1 barWidth) barHeight c2;
               c4 = set_globalAlpha 1.0 c3
           in linearBarsLoop audioData canvasH palette scale barWidth spacing rest
                (fadd x (fadd barWidth spacing)) c4))"

definition drawLinearBarsCore ::
  "CanvasRenderingContext2D \<Rightarrow> Uint8Array \<Rightarrow> nat \<Rightarrow> real \<Rightarrow> real \<Rightarrow> ColorPaletteDefinition \<Rightarrow>
   real \<Rightarrow> js_error + CanvasRenderingContext2D" where
  "drawLinearBarsCore ctx audioData bufferLen canvasW canvasH palette scale =
     (let spacing = max 1 (fmul canvasW (fl 0.003));
          numBarsToDisplay = nat \<lfloor>fmul (real bufferLen) 0.75\<rfloor>;
          effectiveNumBars = max 1 numBarsToDisplay;
          barWidth = fdiv (fsub canvasW (fmul (fsub (real effectiveNumBars) 1) spacing))
                          (real effectiveNumBars)
      in linearBarsLoop audioData canvasH palette scale barWidth spacing
           [0..<effectiveNumBars] 0 ctx)"

subsection \<open>drawLinearWaveformCore\<close>

fun waveformLoop ::
  "real \<Rightarrow> real \<Rightarrow> real \<Rightarrow> nat \<Rightarrow> Uint8Array \<Rightarrow> real \<Rightarrow>
   CanvasRenderingContext2D \<Rightarrow> CanvasRenderingContext2D" where
  "waveformLoop canvasH scale sliceWidth i [] x ctx = ctx"
| "waveformLoop canvasH scale sliceWidth i (b # rest) x ctx =
     (let v = fdiv (byte_val b) 128.0;
          y = fadd (fmul (fsub (fdiv (fmul v canvasH) 2) (fdiv canvasH 2)) scale) (fdiv canvasH 2);
          c1 = (if i = 0 then add_path (MoveTo x y) ctx else add_path (LineTo x y) ctx)
      in waveformLoop canvasH scale sliceWidth (Suc i) rest (fadd x sliceWidth) c1)"

text \<open>
  With an empty array the slice width is \<open>canvasW / 0\<close>, which no iteration reads.
\<close>

definition drawLinearWaveformCore ::
  "CanvasRenderingContext2D \<Rightarrow> Uint8Array \<Rightarrow> real \<Rightarrow> real \<Rightarrow> ColorPaletteDefinition \<Rightarrow> real \<Rightarrow>
   CanvasRenderingContext2D" where
  "drawLinearWaveformCore ctx audioData canvasW canvasH palette scale =
     (let c1 = set_lineWidth (fmul (max 1 (min 3 (fmul canvasW (fl 0.004)))) scale) ctx;
          c2 = set_strokeStyle (Css (waveformStroke palette)) c1;
          c3 = beginPath c2;
          c4 = (if audioData = [] then c3
                else waveformLoop canvasH scale (fdiv canvasW (real (length audioData)))
                       0 audioData 0 c3);
          c5 = add_path (LineTo canvasW (fdiv canvasH 2)) c4
      in ctx_stroke c5)"

subsection \<open>drawCircularBarsCore\<close>

definition innerRadius :: real where
  "innerRadius = 2"

definition barLength_of :: "real \<Rightarrow> real \<Rightarrow> real" where
  "barLength_of v effectiveMaxOuterRadius =
     fmul (fdiv v 255) (fsub effectiveMaxOuterRadius innerRadius)"

text \<open>
  The body of the loop for bar \<open>i\<close>. When the read is past the end of the array every
  comparison with the bar length is false: nothing is drawn between \<open>save\<close> and
  \<open>restore\<close>, and the context comes back as it was.
\<close>

definition drawCircularBar ::
  "Uint8Array \<Rightarrow> real \<Rightarrow> real \<Rightarrow> ColorPaletteDefinition \<Rightarrow> real \<Rightarrow> nat \<Rightarrow> real \<Rightarrow> real \<Rightarrow>
   nat \<Rightarrow> CanvasRenderingContext2D \<Rightarrow> CanvasRenderingContext2D" where
  "drawCircularBar audioData centerX centerY palette effectiveMaxOuterRadius numBarsToDisplay
       barAngularWidth barVisualThickness i ctx =
     (case rd audioData i of
        None \<Rightarrow> ctx
      | Some v \<Rightarrow>
          (let barHeightPercentage = fdiv v 255;
               barLength = barLength_of v effectiveMaxOuterRadius
           in if barLength < 1 then ctx
              else
               (let angle = fmul (real i) barAngularWidth;
                    c1 = ctx_save ctx;
                    c2 = ctx_translate centerX centerY c1;
                    c3 = ctx_rotate (fsub angle (fdiv Math_PI 2)) c2;
                    alpha = max (fl 0.2) barHeightPercentage;
                    c4 = set_fillStyle
                           (circularFill palette (fdiv (real i) (real numBarsToDisplay)) alpha) c3;
                    capRadius = fdiv barVisualThickness 2;
                    c5 = (if barLength > fmul capRadius 0.5 \<and> capRadius > 0
                          then
                           (let p1 = add_path (MoveTo (- capRadius) innerRadius) (beginPath c4);
                                p2 = add_path (LineTo (- capRadius)
                                       (fsub (fadd innerRadius barLength) capRadius)) p1;
                                p3 = (if barLength > capRadius
                                      then add_path (Arc 0 (fsub (fadd innerRadius barLength) capRadius)
                                             capRadius Math_PI 0 False) p2
                                      else add_path (LineTo capRadius
                                             (fsub (fadd innerRadius barLength) capRadius)) p2);
                                p4 = add_path (LineTo capRadius innerRadius) p3;
                                p5 = add_path ClosePath p4
                            in ctx_fill p5)
                          else if barLength > 0
                          then fillRect (fdiv (- barVisualThickness) 2) innerRadius
                                 barVisualThickness barLength c4
                          else c4)
                in ctx_restore c5)))"

definition barVisualThickness_of :: "real \<Rightarrow> nat \<Rightarrow> real" where
  "barVisualThickness_of effectiveMaxOuterRadius numBarsToDisplay =
     (let barDisplayWidthFactor = fl 0.85
      in max 1 (fmul (fdiv (fmul (fmul Math_PI 2) (fmul effectiveMaxOuterRadius 0.5))
                           (real numBarsToDisplay))
                     barDisplayWidthFactor))"

text \<open>
  With no bar to display the loop does not run, and the angular width and the thickness,
  both quotients by zero, are not read.
\<close>

definition drawCircularBarsCore ::
  "CanvasRenderingContext2D \<Rightarrow> Uint8Array \<Rightarrow> nat \<Rightarrow> real \<Rightarrow> real \<Rightarrow> ColorPaletteDefinition \<Rightarrow>
   real \<Rightarrow> CanvasRenderingContext2D" where
  "drawCircularBarsCore ctx audioData bufferLen canvasW canvasH palette scale =
     (let centerX = fdiv canvasW 2;
          centerY = fdiv canvasH 2;
          effectiveMaxOuterRadius = fmul (fmul (fdiv (min canvasW canvasH) 2) (fl 0.9)) scale;
          numBarsToDisplay = nat \<lfloor>fmul (real bufferLen) (fl 0.7)\<rfloor>
      in if numBarsToDisplay = 0 then ctx
         else
          (let barAngularWidth = fdiv (fmul Math_PI 2) (real numBarsToDisplay);
               barVisualThickness = barVisualThickness_of effectiveMaxOuterRadius numBarsToDisplay
           in fold (drawCircularBar audioData centerX centerY palette effectiveMaxOuterRadius
                      numBarsToDisplay barAngularWidth barVisualThickness)
                [0..<numBarsToDisplay] ctx))"

subsection \<open>renderSingleFrame\<close>

definition renderSingleFrame ::
  "CanvasRenderingContext2D \<Rightarrow> Uint8Array \<Rightarrow> Uint8Array \<Rightarrow> frame_props \<Rightarrow>
   js_error + CanvasRenderingContext2D" where
  "renderSingleFrame ctx frequencyData timeDomainData props =
     (let currentPalette = PALETTES (colorTheme props);
          c1 = set_fillStyle (Css (background currentPalette)) ctx;
          c2 = fillRect 0 0 (width props) (height props) c1;
          r = (if visualizationType props = LINEAR
               then (case linearGraphStyle props of
                       bars \<Rightarrow> drawLinearBarsCore c2 frequencyData (length frequencyData)
                                 (width props) (height props) currentPalette (visualizerDetailScale props)
                     | waveform \<Rightarrow> Inr (drawLinearWaveformCore c2 timeDomainData
                                 (width props) (height props) currentPalette (visualizerDetailScale props)))
               else Inr (drawCircularBarsCore c2 frequencyData (length frequencyData)
                           (width props) (height props) currentPalette (visualizerDetailScale props)))
      in case r of
           Inl e \<Rightarrow> Inl e
         | Inr c3 \<Rightarrow>
             (case centerImage props of
                None \<Rightarrow> Inr c3
              | Some img \<Rightarrow>
                  Inr (drawImageCore c3 img (Some frequencyData) (width props) (height props)
                         \<lparr>visualizationType = visualizationType props,
                          imageScale = imageScale props,
                          pulseIntensity = pulseIntensity props,
                          imageCornerRadius = imageCornerRadius props,
                          imageSwingIntensity = imageSwingIntensity props,
                          enablePulse = enablePulse props,
                          enableSwing = enableSwing props,
                          currentTime = currentTime props\<rparr> True)))"

section \<open>App: the export orchestrator\<close>

text \<open>
  The component keeps React state (read through the closure of the render that created a
  handler, written through setters), refs (shared mutable cells) and objects owned by the
  browser. A handler created when an export starts sees the React state of that render for
  as long as the session lasts: those values are the \<open>closure\<close> of the session. The
  browser is the environment: it delivers events, and what it decides (whether a codec is
  supported, the playback position at a tick, what the transcoder does) arrives as the
  parameters of those events. Each handler runs to completion as one step; the awaits inside
  the stop handler of the MP4 path are taken as one step with the transcoder's outcome
  given. The preview canvas, the log listener of the transcoder and the numbers
  interpolated into status texts are left out.
\<close>

datatype ExportType = webm | mp4

datatype RecordingState = inactive | recording | paused

datatype AudioContextState = suspended | running | closed

record ExportSettings =
  resolution :: string
  fps :: real
  exportType :: "ExportType option"
  targetWidth :: real
  targetHeight :: real

record MediaRecorder =
  rec_state :: RecordingState
  mimeType :: string
  onstart :: bool
  onstop :: "ExportType option"
  ondataavailable :: bool
  onerror :: bool

text \<open>What the handlers of one session close over.\<close>

record closure =
  c_exportType :: ExportType
  c_exportWidth :: real
  c_exportHeight :: real
  c_exportFPS :: real
  c_error :: "string option"
  c_exportProgress :: int
  c_currentExportFrame :: nat
  c_totalExportFrames :: int
  c_config :: frame_props

record download =
  extension :: string
  bytes :: nat

record App =
  audioFile :: "string option"
  isFFmpegLoaded :: bool
  isExporting :: bool
  exportProgress :: int
  error :: "string option"
  exportStatusMessage :: string
  currentExportFrame :: nat
  totalExportFrames :: int
  exportSettings :: ExportSettings
  config :: frame_props
  exportAudioRef :: bool
  exportAnalyserNodeRef :: bool
  exportRenderCanvasRef :: bool
  exportAnimationRequestRef :: bool
  mediaRecorderRef :: bool
  recordedChunksRef :: "nat list"
  ffmpeg_loaded :: bool
  recorder :: "MediaRecorder option"
  renderCtx :: CanvasRenderingContext2D
  exportAudioContext :: "AudioContextState option"
  audioFullDuration :: real
  audioHandlers :: bool
  session :: "closure option"
  pendingFrame :: bool
  liveObjectURLs :: nat
  ffmpegFS :: "string \<rightharpoonup> nat"
  downloads :: "download list"
  progressWrites :: "int list"
  cleanupCalls :: nat

text \<open>What the browser answers while an export is set up.\<close>

record host_env =
  has2d :: bool
  freshAudioContextState :: AudioContextState
  resumeError :: "string option"
  isTypeSupported :: "string \<Rightarrow> bool"

text \<open>What the transcoder does during one conversion.\<close>

datatype exec_result = ExecRejects string | ExecResolves int "nat option"

record transcode =
  writeFileError :: "string option"
  execResult :: exec_result

datatype event =
    AudioLoadedMetadata "real option" "string option"
  | AudioError
  | RecorderStart "string option"
  | AnimationFrame real Uint8Array Uint8Array "string option"
  | DataAvailable nat
  | RecorderStop transcode
  | RecorderError string
  | FFmpegProgress real

definition run_stmts :: "('s \<Rightarrow> 's) list \<Rightarrow> 's \<Rightarrow> 's" where
  "run_stmts fs s = fold (\<lambda>f. f) fs s"

definition newContext :: CanvasRenderingContext2D where
  "newContext = \<lparr>state = \<lparr>fillStyle = Css ''#000000'', strokeStyle = Css ''#000000'',
       globalAlpha = 1, lineWidth = 1, transform = [], clip = []\<rparr>,
     stack = [], path = [], painted = []\<rparr>"

subsection \<open>Setters and browser calls\<close>

definition setError :: "string option \<Rightarrow> App \<Rightarrow> App" where
  "setError e w = w\<lparr>error := e\<rparr>"

definition setExportStatusMessage :: "string \<Rightarrow> App \<Rightarrow> App" where
  "setExportStatusMessage m w = w\<lparr>exportStatusMessage := m\<rparr>"

definition setIsExporting :: "bool \<Rightarrow> App \<Rightarrow> App" where
  "setIsExporting b w = w\<lparr>isExporting := b\<rparr>"

definition setExportProgress :: "int \<Rightarrow> App \<Rightarrow> App" where
  "setExportProgress p w = w\<lparr>exportProgress := p, progressWrites := progressWrites w @ [p]\<rparr>"

definition setCurrentExportFrame :: "nat \<Rightarrow> App \<Rightarrow> App" where
  "setCurrentExportFrame n w = w\<lparr>currentExportFrame := n\<rparr>"

definition setTotalExportFrames :: "int \<Rightarrow> App \<Rightarrow> App" where
  "setTotalExportFrames n w = w\<lparr>totalExportFrames := n\<rparr>"

definition createObjectURL :: "App \<Rightarrow> App" where
  "createObjectURL w = w\<lparr>liveObjectURLs := Suc (liveObjectURLs w)\<rparr>"

definition revokeObjectURL :: "App \<Rightarrow> App" where
  "revokeObjectURL w = w\<lparr>liveObjectURLs := liveObjectURLs w - 1\<rparr>"

definition requestAnimationFrame :: "App \<Rightarrow> App" where
  "requestAnimationFrame w = w\<lparr>exportAnimationRequestRef := True, pendingFrame := True\<rparr>"

text \<open>\<open>if (exportAnimationRequestRef.current) cancelAnimationFrame(exportAnimationRequestRef.current)\<close>\<close>

definition cancelIfRequested :: "App \<Rightarrow> App" where
  "cancelIfRequested w = (if exportAnimationRequestRef w then w\<lparr>pendingFrame := False\<rparr> else w)"

definition recorderIs :: "RecordingState \<Rightarrow> App \<Rightarrow> bool" where
  "recorderIs st w = (case recorder w of None \<Rightarrow> False | Some r \<Rightarrow> rec_state r = st)"

text \<open>\<open>if (localMediaRecorder.state === "recording") { try { localMediaRecorder.stop(); } catch ... }\<close>\<close>

definition stopIfRecording :: "App \<Rightarrow> App" where
  "stopIfRecording w =
     (case recorder w of
        None \<Rightarrow> w
      | Some r \<Rightarrow> if rec_state r = recording then w\<lparr>recorder := Some (r\<lparr>rec_state := inactive\<rparr>)\<rparr> else w)"

subsection \<open>cleanupExportResources\<close>

text \<open>\<open>if (exportAudioRef.current) { URL.revokeObjectURL(exportAudioRef.current.src); exportAudioRef.current = null; }\<close>\<close>

definition releaseAudioElement :: "App \<Rightarrow> App" where
  "releaseAudioElement w =
     (if exportAudioRef w then (revokeObjectURL w)\<lparr>exportAudioRef := False\<rparr> else w)"

text \<open>\<open>if (exportAnimationRequestRef.current) { cancelAnimationFrame(exportAnimationRequestRef.current); exportAnimationRequestRef.current = null; }\<close>\<close>

definition cancelAndClearRequest :: "App \<Rightarrow> App" where
  "cancelAndClearRequest w =
     (if exportAnimationRequestRef w
      then w\<lparr>pendingFrame := False, exportAnimationRequestRef := False\<rparr> else w)"

text \<open>\<open>if (exportAudioCtx && exportAudioCtx.state !== 'closed') exportAudioCtx.close()\<close>\<close>

definition closeAudioContext :: "App \<Rightarrow> App" where
  "closeAudioContext w =
     (case exportAudioContext w of
        None \<Rightarrow> w
      | Some st \<Rightarrow> if st \<noteq> closed then w\<lparr>exportAudioContext := Some closed\<rparr> else w)"

text \<open>
  \<open>if (mediaRecorderRef.current) { ... }\<close>: the four handlers are set to \<open>null\<close>, a
  recorder that is not inactive is stopped, and the ref is cleared.
\<close>

definition releaseRecorder :: "App \<Rightarrow> App" where
  "releaseRecorder w =
     (if mediaRecorderRef w
      then (case recorder w of
              None \<Rightarrow> w\<lparr>mediaRecorderRef := False\<rparr>
            | Some r \<Rightarrow>
                w\<lparr>recorder := Some (r\<lparr>onstart := False, onstop := None,
                                         ondataavailable := False, onerror := False,
                                         rec_state := inactive\<rparr>),
                  mediaRecorderRef := False\<rparr>)
      else w)"

definition cleanupStatus :: "string \<Rightarrow> App \<Rightarrow> string" where
  "cleanupStatus status w =
     (if status \<noteq> [] then status
      else (case session w of
              None \<Rightarrow> ''Export cancelled. Cleaning up...''
            | Some cl \<Rightarrow>
                if c_error cl \<noteq> None then ''Export failed. Cleaning up...''
                else if c_exportProgress cl \<ge> 100 then ''Export complete. Cleaning up...''
                else ''Export cancelled. Cleaning up...''))"

definition cleanupExportResources :: "string \<Rightarrow> App \<Rightarrow> App" where
  "cleanupExportResources status w =
     run_stmts
      [setExportStatusMessage (cleanupStatus status w),
       setIsExporting False,
       releaseAudioElement,
       (\<lambda>w. w\<lparr>exportAnalyserNodeRef := False\<rparr>),
       (\<lambda>w. w\<lparr>exportRenderCanvasRef := False\<rparr>),
       cancelAndClearRequest,
       closeAudioContext,
       releaseRecorder,
       (\<lambda>w. w\<lparr>recordedChunksRef := []\<rparr>),
       (\<lambda>w. w\<lparr>cleanupCalls := Suc (cleanupCalls w)\<rparr>)]
      w"

subsection \<open>commonExportSetup\<close>

definition mimeTypeCandidates :: "string list" where
  "mimeTypeCandidates =
     [''video/webm;codecs=vp9,opus'', ''video/webm;codecs=vp8,opus'',
      ''video/webm;codecs=vp9,vorbis'', ''video/webm;codecs=vp8,vorbis'',
      ''video/webm;codecs=h264,aac'', ''video/webm'']"

definition container_of :: "string \<Rightarrow> string" where
  "container_of mime = takeWhile (\<lambda>c. c \<noteq> CHR '';'') mime"

definition commonExportSetup ::
  "ExportType \<Rightarrow> real \<Rightarrow> real \<Rightarrow> real \<Rightarrow> host_env \<Rightarrow> App \<Rightarrow> bool \<times> App" where
  "commonExportSetup ty exportWidth exportHeight exportFPS host w0 =
     (let w1 = setExportStatusMessage ''Initializing export environment...'' w0
      in if audioFile w1 = None \<or> isExporting w1
         then (False,
               run_stmts
                [setError (Some (if isExporting w1 then ''Export already in progress.''
                                 else ''Audio file needed for export.'')),
                 setExportStatusMessage (if isExporting w1 then ''Export already in progress.''
                                         else ''Audio file needed for export.'')] w1)
         else if ty = mp4 \<and> \<not> isFFmpegLoaded w1
         then (False,
               run_stmts
                [setError (Some ''MP4 export tools (FFmpeg) not ready. Try WebM or refresh.''),
                 setExportStatusMessage ''MP4 export tools (FFmpeg) not ready.''] w1)
         else
          (let w2 = run_stmts
                     [setError None, setIsExporting True, setExportProgress 0,
                      setCurrentExportFrame 0, setTotalExportFrames 0,
                      (\<lambda>w. w\<lparr>recordedChunksRef := []\<rparr>),
                      setExportStatusMessage ''Creating virtual render canvas...'',
                      (\<lambda>w. w\<lparr>exportRenderCanvasRef := True\<rparr>)] w1
           in if \<not> has2d host
              then (False,
                    run_stmts
                     [setError (Some ''Failed to create render canvas context for export.''),
                      setExportStatusMessage ''Failed to create render canvas context.'',
                      setIsExporting False] w2)
              else
               (let w3 = run_stmts
                          [(\<lambda>w. w\<lparr>renderCtx := newContext\<rparr>),
                           setExportStatusMessage ''Setting up audio for export...'',
                           (\<lambda>w. (createObjectURL w)\<lparr>exportAudioRef := True, audioHandlers := False\<rparr>),
                           (\<lambda>w. w\<lparr>exportAudioContext := Some (freshAudioContextState host)\<rparr>)] w2
                in if freshAudioContextState host = suspended \<and> resumeError host \<noteq> None
                   then (False,
                         run_stmts
                          [setExportStatusMessage ''Resuming export audio context...'',
                           setError (Some (''Failed to resume audio context for export: ''
                                           @ the (resumeError host) @ ''.'')),
                           setExportStatusMessage (''Export audio context resume failed: ''
                                                   @ the (resumeError host)),
                           setIsExporting False] w3)
                   else
                    (let w4 = run_stmts
                               [(\<lambda>w. if freshAudioContextState host = suspended
                                     then (setExportStatusMessage ''Resuming export audio context...'' w)
                                            \<lparr>exportAudioContext := Some running\<rparr>
                                     else w),
                                (\<lambda>w. w\<lparr>exportAnalyserNodeRef := True\<rparr>)] w3
                     in if \<not> exportRenderCanvasRef w4
                        then (False,
                              run_stmts
                               [setError (Some ''Export render canvas not initialized.''),
                                setExportStatusMessage ''Export render canvas not initialized.'',
                                cleanupExportResources ''Setup failure''] w4)
                        else
                         (let w5 = setExportStatusMessage ''Configuring video recorder...'' w4
                          in case find (isTypeSupported host) mimeTypeCandidates of
                               None \<Rightarrow>
                                 (False,
                                  run_stmts
                                   [setError (Some ''No suitable WebM codecs supported by your browser for recording. Try a different browser or check for updates.''),
                                    setExportStatusMessage ''MediaRecorder: Codec support issue.'',
                                    cleanupExportResources ''MediaRecorder codec failure''] w5)
                             | Some supportedMimeType \<Rightarrow>
                                 (True,
                                  run_stmts
                                   [setExportStatusMessage (''Recorder: '' @ container_of supportedMimeType),
                                    (\<lambda>w. w\<lparr>recorder := Some \<lparr>rec_state = inactive,
                                              mimeType = supportedMimeType, onstart = False,
                                              onstop = None, ondataavailable = False,
                                              onerror = False\<rparr>,
                                            mediaRecorderRef := True\<rparr>),
                                    setExportStatusMessage (''Recorder configured ('' @ container_of supportedMimeType @ '').'')]
                                   w5))))))"


subsection \<open>The stop handlers\<close>

definition offerDownload :: "string \<Rightarrow> nat \<Rightarrow> App \<Rightarrow> App" where
  "offerDownload ext n w =
     revokeObjectURL ((createObjectURL w)\<lparr>downloads := downloads w @ [\<lparr>extension = ext, bytes = n\<rparr>]\<rparr>)"

text \<open>\<open>mediaRecorderRef.current.onstop\<close> of \<open>handleExportWebM\<close>.\<close>

definition onstopWebM :: "closure \<Rightarrow> App \<Rightarrow> App" where
  "onstopWebM cl w =
     (if c_error cl \<noteq> None \<and> recordedChunksRef w = []
      then cleanupExportResources ''WebM export error during recording.'' w
      else
       (let w1 = run_stmts
                  [setExportProgress 100,
                   setExportStatusMessage ''WebM recording complete. Creating file...''] w;
            videoBlob_size = sum_list (recordedChunksRef w1)
        in if videoBlob_size = 0
           then run_stmts
                 [setError (Some ''WebM export resulted in an empty file. Recording might have failed.''),
                  setExportStatusMessage ''WebM export: Empty file produced.'',
                  cleanupExportResources ''WebM empty file''] w1
           else run_stmts
                 [setExportStatusMessage ''WebM file ready. Starting download...'',
                  offerDownload ''webm'' videoBlob_size,
                  setExportStatusMessage ''WebM export finished and downloaded.'',
                  cleanupExportResources ''WebM export successful''] w1))"

text \<open>
  The \<open>try\<close> block of the MP4 stop handler: the message of what was thrown, if anything,
  and the state reached. \<open>readFile\<close> throws when the transcoder left no output file.
\<close>

definition transcodeMP4 :: "transcode \<Rightarrow> nat \<Rightarrow> App \<Rightarrow> string option \<times> App" where
  "transcodeMP4 tc videoBuffer_size w =
     (let w1 = setExportStatusMessage ''Writing intermediate WebM to FFmpeg memory...'' w
      in case writeFileError tc of
           Some m \<Rightarrow> (Some m, w1)
         | None \<Rightarrow>
            (let w2 = run_stmts
                       [(\<lambda>w. w\<lparr>ffmpegFS := (ffmpegFS w)(''input.webm'' \<mapsto> videoBuffer_size)\<rparr>),
                        setExportStatusMessage ''Starting FFmpeg for MP4 conversion...''] w1
             in case execResult tc of
                  ExecRejects m \<Rightarrow> (Some m, w2)
                | ExecResolves code out \<Rightarrow>
                   (let w3 = run_stmts
                              [(\<lambda>w. case out of
                                       None \<Rightarrow> w
                                     | Some n \<Rightarrow> w\<lparr>ffmpegFS := (ffmpegFS w)(''output.mp4'' \<mapsto> n)\<rparr>),
                               setExportStatusMessage ''MP4 conversion complete. Reading file...''] w2
                    in case ffmpegFS w3 ''output.mp4'' of
                         None \<Rightarrow> (Some ''ErrnoError: FS error'', w3)
                       | Some outputData_size \<Rightarrow>
                           (None,
                            run_stmts
                             [setExportStatusMessage ''MP4 file ready. Starting download...'',
                              offerDownload ''mp4'' outputData_size,
                              setExportStatusMessage ''Cleaning up FFmpeg files...'',
                              (\<lambda>w. w\<lparr>ffmpegFS := (ffmpegFS w)(''input.webm'' := None)\<rparr>),
                              (\<lambda>w. w\<lparr>ffmpegFS := (ffmpegFS w)(''output.mp4'' := None)\<rparr>),
                              setExportProgress 100,
                              setExportStatusMessage ''MP4 export finished and downloaded.''] w3))))"

text \<open>\<open>mediaRecorderRef.current.onstop\<close> of \<open>handleExportMP4\<close>.\<close>

definition onstopMP4 :: "closure \<Rightarrow> transcode \<Rightarrow> App \<Rightarrow> App" where
  "onstopMP4 cl tc w =
     (if c_error cl \<noteq> None \<and> recordedChunksRef w = []
      then cleanupExportResources ''MP4 export error during recording.'' w
      else
       (let w1 = run_stmts
                  [setExportProgress 50,
                   setExportStatusMessage ''WebM recording complete. Preparing for MP4 conversion...''] w;
            videoBlob_size = sum_list (recordedChunksRef w1)
        in if videoBlob_size = 0
           then run_stmts
                 [setError (Some ''Intermediate WebM for MP4 export was empty. Recording failed.''),
                  setExportStatusMessage ''MP4 export: Intermediate WebM empty.'',
                  cleanupExportResources ''MP4 intermediate file empty''] w1
           else if \<not> ffmpeg_loaded w1
           then run_stmts
                 [setError (Some ''FFmpeg not loaded. Cannot export MP4.''),
                  setExportStatusMessage ''FFmpeg not loaded for MP4 conversion.'',
                  cleanupExportResources ''FFmpeg not loaded''] w1
           else
            (let attempt = transcodeMP4 tc videoBlob_size w1
             in case fst attempt of
                  None \<Rightarrow> cleanupExportResources ''MP4 export complete. Cleaning up.'' (snd attempt)
                | Some ffmpegErrorMessage \<Rightarrow>
                    run_stmts
                     [setError (Some (''MP4 export failed during video processing: '' @ ffmpegErrorMessage)),
                      setExportStatusMessage (''MP4 conversion failed: '' @ ffmpegErrorMessage),
                      setExportProgress 50,
                      cleanupExportResources ''MP4 conversion failed. Cleaning up.''] (snd attempt))))"

subsection \<open>startExportRenderLoop\<close>

text \<open>The progress written by one tick of \<open>renderFn\<close> at playback time \<open>t\<close>.\<close>

definition tickProgress :: "ExportType \<Rightarrow> real \<Rightarrow> real \<Rightarrow> int" where
  "tickProgress ty t duration =
     (let progressPercentage = Math_round (fmul (fdiv t duration) 100)
      in if ty = mp4 then min 50 (Math_round (fmul (real_of_int progressPercentage) 0.5))
         else progressPercentage)"

definition renderError :: "string \<Rightarrow> App \<Rightarrow> App" where
  "renderError renderErrorMessage w =
     run_stmts
      [setError (Some (''Error rendering export frame: '' @ renderErrorMessage)),
       setExportStatusMessage (''Frame render error: '' @ renderErrorMessage),
       stopIfRecording,
       cancelIfRequested] w"

text \<open>
  \<open>renderFn\<close>: one tick of the drive loop, at playback time \<open>currentTimeVal\<close>, with the
  two snapshots of the analyser. \<open>fault\<close> is an exception raised by the browser while the
  frame is drawn.
\<close>

definition renderFn ::
  "closure \<Rightarrow> real \<Rightarrow> Uint8Array \<Rightarrow> Uint8Array \<Rightarrow> string option \<Rightarrow> App \<Rightarrow> App" where
  "renderFn cl currentTimeVal frequencyData timeDomainData fault w =
     (if \<not> exportAudioRef w \<or> \<not> exportAnalyserNodeRef w \<or> \<not> exportRenderCanvasRef w
           \<or> recorder w = None
      then cancelIfRequested w
      else if \<not> recorderIs recording w
      then (let w1 = cancelIfRequested w
            in if recorderIs inactive w1 \<and> recordedChunksRef w1 = [] \<and> c_error cl = None
               then run_stmts
                     [setError (Some ''MediaRecorder stopped prematurely without data.''),
                      setExportStatusMessage ''Recorder stopped before data capture.''] w1
               else w1)
      else if audioFullDuration w > 0 \<and> currentTimeVal \<ge> audioFullDuration w
      then run_stmts
            [setExportStatusMessage ''Audio ended. Stopping recorder...'',
             stopIfRecording,
             cancelIfRequested] w
      else
       (let visualizerProps = (c_config cl)\<lparr>currentTime := currentTimeVal,
                                 width := c_exportWidth cl, height := c_exportHeight cl\<rparr>
        in case fault of
             Some m \<Rightarrow> renderError m w
           | None \<Rightarrow>
              (case renderSingleFrame (renderCtx w) frequencyData timeDomainData visualizerProps of
                 Inl e \<Rightarrow> renderError ''TypeError'' w
               | Inr ctx' \<Rightarrow>
                  (let newFrameCount = c_currentExportFrame cl + 1
                   in run_stmts
                       [(\<lambda>w. w\<lparr>renderCtx := ctx'\<rparr>),
                        setCurrentExportFrame newFrameCount,
                        (\<lambda>w. if newFrameCount mod 10 = 0 \<or> newFrameCount = 1
                             then setExportStatusMessage ''Rendering frame...'' w else w),
                        (\<lambda>w. if audioFullDuration w > 0
                             then setExportProgress
                                    (tickProgress (c_exportType cl) currentTimeVal (audioFullDuration w)) w
                             else w),
                        requestAnimationFrame] w))))"

text \<open>
  \<open>localMediaRecorder.start()\<close> throws when the recorder is not inactive, or when the
  browser refuses (\<open>startFault\<close>).
\<close>

definition startRecorder :: "string option \<Rightarrow> App \<Rightarrow> string option \<times> App" where
  "startRecorder startFault w =
     (case recorder w of
        None \<Rightarrow> (Some ''InvalidStateError'', w)
      | Some r \<Rightarrow>
          if rec_state r \<noteq> inactive then (Some ''InvalidStateError'', w)
          else (case startFault of
                  Some m \<Rightarrow> (Some m, w)
                | None \<Rightarrow> (None, w\<lparr>recorder := Some (r\<lparr>rec_state := recording\<rparr>)\<rparr>)))"

text \<open>
  \<open>exportAudioRef.current.onloadedmetadata\<close>. The duration is \<open>None\<close> when it is not a
  number; the variable \<open>audioFullDuration\<close> then keeps a value that fails every
  \<open>audioFullDuration > 0\<close> test, as \<open>NaN\<close> does.
\<close>

definition onloadedmetadata :: "closure \<Rightarrow> real option \<Rightarrow> string option \<Rightarrow> App \<Rightarrow> App" where
  "onloadedmetadata cl duration startFault w =
     (let w1 = setExportStatusMessage ''Audio metadata loaded. Preparing recorder...'' w
      in if \<not> exportAudioRef w1 \<or> recorder w1 = None
         then run_stmts
               [setError (Some ''Audio or recorder missing after metadata load.''),
                cleanupExportResources ''Audio or recorder missing after metadata load.''] w1
         else
          (let w2 = w1\<lparr>audioFullDuration := (case duration of None \<Rightarrow> 0 | Some d \<Rightarrow> d)\<rparr>
           in if duration = None \<or> audioFullDuration w2 \<le> 0
              then run_stmts
                    [setError (Some ''Failed to get valid audio duration for export.''),
                     setExportStatusMessage ''Invalid audio duration for export.'',
                     cleanupExportResources ''Invalid audio duration''] w2
              else
               (let calculatedTotalFrames = \<lfloor>fmul (audioFullDuration w2) (c_exportFPS cl)\<rfloor>;
                    w3 = run_stmts
                          [setTotalExportFrames calculatedTotalFrames,
                           setExportStatusMessage ''Total frames to render.'',
                           (\<lambda>w. w\<lparr>recorder := map_option (\<lambda>r. r\<lparr>onstart := True, onerror := True\<rparr>) (recorder w)\<rparr>),
                           setExportStatusMessage ''Starting recorder...''] w2;
                    attempt = startRecorder startFault w3
                in case fst attempt of
                     None \<Rightarrow> snd attempt
                   | Some m \<Rightarrow>
                       run_stmts
                        [setError (Some (''Failed to start MediaRecorder: '' @ m)),
                         setExportStatusMessage (''Failed to start MediaRecorder: '' @ m),
                         cleanupExportResources ''Recorder start failed''] (snd attempt))))"

text \<open>\<open>localMediaRecorder.onstart\<close>, with the outcome of \<open>play()\<close>.\<close>

definition recorder_onstart :: "string option \<Rightarrow> App \<Rightarrow> App" where
  "recorder_onstart playError w =
     (let w1 = setExportStatusMessage ''Recorder started. Playing audio for capture...'' w
      in if \<not> exportAudioRef w1
         then (let w2 = run_stmts
                         [setError (Some ''Export audio element missing when MediaRecorder started.''),
                          setExportStatusMessage ''Export audio missing at recorder start.''] w1
               in if recorderIs recording w2 then stopIfRecording w2
                  else cleanupExportResources ''Audio missing at recorder start, recorder not active'' w2)
         else
          (case playError of
             None \<Rightarrow> requestAnimationFrame w1
           | Some m \<Rightarrow>
               (let w2 = run_stmts
                          [setError (Some (''Failed to start audio for export: '' @ m)),
                           setExportStatusMessage (''Failed to start audio for export: '' @ m)] w1
                in if recorderIs recording w2 then stopIfRecording w2
                   else cleanupExportResources ''Audio play failed during export, recorder not active'' w2)))"

text \<open>\<open>localMediaRecorder.onerror\<close>.\<close>

definition recorder_onerror :: "string \<Rightarrow> App \<Rightarrow> App" where
  "recorder_onerror m w =
     run_stmts
      [setError (Some (''MediaRecorder error: '' @ m)),
       setExportStatusMessage (''MediaRecorder error: '' @ m),
       cancelAndClearRequest] w"

text \<open>\<open>exportAudioRef.current.onerror\<close>.\<close>

definition audio_onerror :: "App \<Rightarrow> App" where
  "audio_onerror w =
     run_stmts
      [setError (Some ''Error with export audio element. Cannot load for export.''),
       setExportStatusMessage ''Export audio element error.'',
       cleanupExportResources ''Export audio load error'',
       cancelIfRequested] w"

definition startExportRenderLoop :: "App \<Rightarrow> App" where
  "startExportRenderLoop w =
     (let w1 = setExportStatusMessage ''Preparing render loop...'' w
      in if \<not> exportAudioRef w1 \<or> \<not> exportAnalyserNodeRef w1 \<or> \<not> mediaRecorderRef w1
         then run_stmts
               [setError (Some ''Core export elements not ready for render loop.''),
                setExportStatusMessage ''Render loop setup failed: Missing elements.'',
                cleanupExportResources ''Render loop setup failure''] w1
         else run_stmts
               [(\<lambda>w. w\<lparr>audioFullDuration := 0\<rparr>),
                (\<lambda>w. w\<lparr>audioHandlers := True\<rparr>),
                setExportStatusMessage ''Loading export audio...''] w1)"

subsection \<open>handleExportWebM, handleExportMP4, startActualExport\<close>

definition handleExport :: "ExportType \<Rightarrow> real \<Rightarrow> real \<Rightarrow> real \<Rightarrow> host_env \<Rightarrow> App \<Rightarrow> App" where
  "handleExport ty exportWidth exportHeight exportFPS host w =
     (let setupResult = commonExportSetup ty exportWidth exportHeight exportFPS host w;
          w1 = snd setupResult
      in if \<not> fst setupResult then w1
         else
          if \<not> mediaRecorderRef w1 \<or> \<not> exportAudioRef w1 \<or> \<not> exportAnalyserNodeRef w1
               \<or> \<not> exportRenderCanvasRef w1
          then run_stmts
                [setError (Some (if ty = webm then ''Export setup failed unexpectedly (WebM).''
                                 else ''Export setup failed unexpectedly (MP4).'')),
                 setExportStatusMessage (if ty = webm then ''WebM export setup failed.''
                                         else ''MP4 export setup failed.''),
                 cleanupExportResources (if ty = webm then ''WebM setup failure''
                                         else ''MP4 setup failure'')] w1
          else run_stmts
                [(\<lambda>w'. w'\<lparr>session := Some \<lparr>c_exportType = ty, c_exportWidth = exportWidth,
                     c_exportHeight = exportHeight, c_exportFPS = exportFPS, c_error = error w,
                     c_exportProgress = exportProgress w,
                     c_currentExportFrame = currentExportFrame w,
                     c_totalExportFrames = totalExportFrames w, c_config = config w\<rparr>\<rparr>),
                 (\<lambda>w'. w'\<lparr>recorder := map_option (\<lambda>r. r\<lparr>ondataavailable := True, onstop := Some ty\<rparr>)
                                          (recorder w')\<rparr>),
                 startExportRenderLoop] w1)"

definition handleExportWebM :: "real \<Rightarrow> real \<Rightarrow> real \<Rightarrow> host_env \<Rightarrow> App \<Rightarrow> App" where
  "handleExportWebM exportWidth exportHeight exportFPS host w =
     handleExport webm exportWidth exportHeight exportFPS host w"

definition handleExportMP4 :: "real \<Rightarrow> real \<Rightarrow> real \<Rightarrow> host_env \<Rightarrow> App \<Rightarrow> App" where
  "handleExportMP4 exportWidth exportHeight exportFPS host w =
     handleExport mp4 exportWidth exportHeight exportFPS host w"

definition startActualExport :: "host_env \<Rightarrow> App \<Rightarrow> App" where
  "startActualExport host w =
     (case exportType (exportSettings w) of
        None \<Rightarrow> w
      | Some ty \<Rightarrow>
          (let w1 = setExportStatusMessage
                      (if ty = webm then ''Starting WEBM export...'' else ''Starting MP4 export...'') w;
               es = exportSettings w
           in if ty = webm then handleExportWebM (targetWidth es) (targetHeight es) (fps es) host w1
              else handleExportMP4 (targetWidth es) (targetHeight es) (fps es) host w1))"

subsection \<open>The progress listener of the transcoder\<close>

text \<open>
  The listener is registered once, by an effect with no dependencies, so the
  \<open>exportSettings\<close> it reads are those of the first render.
\<close>

definition initialExportSettings :: ExportSettings where
  "initialExportSettings = \<lparr>resolution = ''1920x1080'', fps = 60, exportType = None,
     targetWidth = 1920, targetHeight = 1080\<rparr>"

definition ffmpegProgressListener :: "ExportSettings \<Rightarrow> real \<Rightarrow> App \<Rightarrow> App" where
  "ffmpegProgressListener es progress w =
     (if exportType es = Some mp4
      then (let ffmpegProgress = Math_round (fmul progress 100)
            in run_stmts
                [setExportProgress (50 + Math_round (fdiv (real_of_int ffmpegProgress) 2)),
                 setExportStatusMessage ''FFmpeg: Processing...''] w)
      else w)"

subsection \<open>Events\<close>

text \<open>
  The browser delivers an event to the handler that is attached at that moment, if any.
  A recorder that reports an error has gone inactive.
\<close>

definition fire :: "event \<Rightarrow> App \<Rightarrow> App" where
  "fire e w =
     (case session w of
        None \<Rightarrow> (case e of FFmpegProgress p \<Rightarrow> ffmpegProgressListener initialExportSettings p w | _ \<Rightarrow> w)
      | Some cl \<Rightarrow>
         (case e of
            AudioLoadedMetadata duration startFault \<Rightarrow>
              if audioHandlers w then onloadedmetadata cl duration startFault w else w
          | AudioError \<Rightarrow> if audioHandlers w then audio_onerror w else w
          | RecorderStart playError \<Rightarrow>
              (case recorder w of
                 None \<Rightarrow> w
               | Some r \<Rightarrow> if onstart r then recorder_onstart playError w else w)
          | AnimationFrame t frequencyData timeDomainData fault \<Rightarrow>
              if pendingFrame w
              then renderFn cl t frequencyData timeDomainData fault (w\<lparr>pendingFrame := False\<rparr>)
              else w
          | DataAvailable n \<Rightarrow>
              (case recorder w of
                 None \<Rightarrow> w
               | Some r \<Rightarrow>
                   if ondataavailable r \<and> n > 0
                   then w\<lparr>recordedChunksRef := recordedChunksRef w @ [n]\<rparr> else w)
          | RecorderStop tc \<Rightarrow>
              (case recorder w of
                 None \<Rightarrow> w
               | Some r \<Rightarrow>
                   (case onstop r of
                      None \<Rightarrow> w
                    | Some webm \<Rightarrow> onstopWebM cl w
                    | Some mp4 \<Rightarrow> onstopMP4 cl tc w))
          | RecorderError m \<Rightarrow>
              (case recorder w of
                 None \<Rightarrow> w
               | Some r \<Rightarrow>
                   (let w1 = w\<lparr>recorder := Some (r\<lparr>rec_state := inactive\<rparr>)\<rparr>
                    in if onerror r then recorder_onerror m w1 else w1))
          | FFmpegProgress p \<Rightarrow> ffmpegProgressListener initialExportSettings p w))"

definition run :: "event list \<Rightarrow> App \<Rightarrow> App" where
  "run es w = fold fire es w"

text \<open>The component after its first render, before any file is chosen.\<close>

definition initialConfig :: frame_props where
  "initialConfig = \<lparr>visualizationType = LINEAR, imageScale = 1.0, pulseIntensity = 1.0,
     imageCornerRadius = 0, imageSwingIntensity = 0, enablePulse = False, enableSwing = False,
     currentTime = 0, linearGraphStyle = bars, colorTheme = sky, centerImage = None,
     visualizerDetailScale = 1.0, width = 640, height = 360\<rparr>"

definition initialApp :: App where
  "initialApp = \<lparr>audioFile = None, isFFmpegLoaded = False, isExporting = False,
     exportProgress = 0, error = None, exportStatusMessage = [], currentExportFrame = 0,
     totalExportFrames = 0, exportSettings = initialExportSettings, config = initialConfig,
     exportAudioRef = False, exportAnalyserNodeRef = False, exportRenderCanvasRef = False,
     exportAnimationRequestRef = False, mediaRecorderRef = False, recordedChunksRef = [],
     ffmpeg_loaded = False, recorder = None, renderCtx = newContext,
     exportAudioContext = None, audioFullDuration = 0, audioHandlers = False, session = None,
     pendingFrame = False, liveObjectURLs = 0, ffmpegFS = Map.empty, downloads = [],
     progressWrites = [], cleanupCalls = 0\<rparr>"

section \<open>Concrete inputs\<close>



text \<open>A component with an audio file chosen and an export type picked in the settings.\<close>

definition readyApp :: "ExportType \<Rightarrow> App" where
  "readyApp ty = initialApp\<lparr>audioFile := Some ''song.mp3'', isFFmpegLoaded := True,
     ffmpeg_loaded := True,
     exportSettings := initialExportSettings\<lparr>exportType := Some ty\<rparr>\<rparr>"

definition goodHost :: host_env where
  "goodHost = \<lparr>has2d = True, freshAudioContextState = running, resumeError = None,
     isTypeSupported = (\<lambda>m. True)\<rparr>"

text \<open>A browser whose fresh audio context is suspended and refuses to resume.\<close>

definition mutedHost :: host_env where
  "mutedHost = \<lparr>has2d = True, freshAudioContextState = suspended,
     resumeError = Some ''NotAllowedError'', isTypeSupported = (\<lambda>m. True)\<rparr>"

definition started :: "ExportType \<Rightarrow> App" where
  "started ty = startActualExport goodHost (readyApp ty)"

text \<open>A transcoder run that ends with exit code 1 and leaves an empty output file.\<close>

definition failedTranscode :: transcode where
  "failedTranscode = \<lparr>writeFileError = None, execResult = ExecResolves 1 (Some 0)\<rparr>"

text \<open>A transcoder run in which \<open>exec\<close> rejects.\<close>

definition abortedTranscode :: transcode where
  "abortedTranscode = \<lparr>writeFileError = None, execResult = ExecRejects ''ffmpeg terminated''\<rparr>"

definition goodTranscode :: transcode where
  "goodTranscode = \<lparr>writeFileError = None, execResult = ExecResolves 0 (Some 2048)\<rparr>"

definition silence :: Uint8Array where
  "silence = replicate 256 0"

definition flatline :: Uint8Array where
  "flatline = replicate 512 128"

section \<open>Rounding to the nearest double\<close>

text \<open>
  The facts about \<open>fl\<close> that the properties below rest on: the relative error of one
  rounding is at most \<open>eps\<close>, rounding is monotone, and integers below \<open>2 ^ 53\<close> and
  their halves are not rounded.
\<close>

lemma ulp_pos: "0 < ulp x"
  by (simp add: ulp_def)

lemma expo_bounds:
  assumes "x \<noteq> 0"
  shows "2 powr (of_int (expo x)) \<le> \<bar>x\<bar>" and "\<bar>x\<bar> < 2 powr (of_int (expo x) + 1)"
proof -
  have p: "0 < \<bar>x\<bar>" using assms by simp
  have "of_int (expo x) \<le> log 2 \<bar>x\<bar>" unfolding expo_def by simp
  then have "2 powr (of_int (expo x)) \<le> 2 powr (log 2 \<bar>x\<bar>)" by simp
  then show "2 powr (of_int (expo x)) \<le> \<bar>x\<bar>" using p by simp
  have "log 2 \<bar>x\<bar> < of_int (expo x) + 1" unfolding expo_def by linarith
  then have "2 powr (log 2 \<bar>x\<bar>) < 2 powr (of_int (expo x) + 1)" by simp
  then show "\<bar>x\<bar> < 2 powr (of_int (expo x) + 1)" using p by simp
qed

lemma expo_unique:
  assumes "2 powr (of_int e) \<le> \<bar>x\<bar>" and "\<bar>x\<bar> < 2 powr (of_int e + 1)"
  shows "expo x = e"
proof -
  have p: "0 < \<bar>x\<bar>" using assms(1) powr_gt_zero[of 2 "of_int e"] by linarith
  have "of_int e \<le> log 2 \<bar>x\<bar>" using assms(1) p by (simp add: le_log_iff)
  moreover have "log 2 \<bar>x\<bar> < of_int e + 1" using assms(2) p by (simp add: log_less_iff)
  ultimately show ?thesis unfolding expo_def by linarith
qed

lemma round_even_near: "\<bar>y - of_int (round_even y)\<bar> \<le> 1 / 2"
  unfolding round_even_def Let_def by (auto; linarith)

lemma round_even_int [simp]: "round_even (of_int k) = k"
  by (simp add: round_even_def)

lemma round_even_mono:
  assumes "y \<le> z"
  shows "round_even y \<le> round_even z"
proof (rule ccontr)
  assume "\<not> round_even y \<le> round_even z"
  then have gt: "round_even z + 1 \<le> round_even y" by simp
  have fy: "\<lfloor>y\<rfloor> \<le> \<lfloor>z\<rfloor>" using assms by (rule floor_mono)
  have ry: "round_even y \<le> \<lfloor>y\<rfloor> + 1" and ry': "\<lfloor>y\<rfloor> \<le> round_even y"
    unfolding round_even_def Let_def by auto
  have rz: "\<lfloor>z\<rfloor> \<le> round_even z" and rz': "round_even z \<le> \<lfloor>z\<rfloor> + 1"
    unfolding round_even_def Let_def by auto
  from gt ry rz fy have e1: "\<lfloor>y\<rfloor> = \<lfloor>z\<rfloor>" and e2: "round_even y = \<lfloor>y\<rfloor> + 1"
    and e3: "round_even z = \<lfloor>z\<rfloor>" by linarith+
  from e2 have hy: "y - of_int \<lfloor>y\<rfloor> \<ge> 1 / 2"
    unfolding round_even_def Let_def by (auto split: if_splits)
  from e3 have hz: "z - of_int \<lfloor>z\<rfloor> \<le> 1 / 2"
    unfolding round_even_def Let_def by (auto split: if_splits)
  from hy hz e1 assms have yz: "y = z" by simp
  with e2 e3 e1 show False by simp
qed

lemma round_even_uminus: "round_even (- y) = - round_even y"
proof (cases "y = of_int \<lfloor>y\<rfloor>")
  case True
  then obtain k where "y = of_int k" by metis
  then show ?thesis by (simp flip: of_int_minus)
next
  case False
  then have c: "\<lceil>y\<rceil> = \<lfloor>y\<rfloor> + 1" by (simp add: ceiling_altdef)
  have f: "\<lfloor>- y\<rfloor> = - \<lfloor>y\<rfloor> - 1" using c by (simp add: ceiling_def)
  have lt: "of_int \<lfloor>y\<rfloor> < y" "y < of_int \<lfloor>y\<rfloor> + 1" using False by linarith+
  show ?thesis
    unfolding round_even_def Let_def f using lt
    by (auto simp: algebra_simps)
qed


lemma expo_uminus [simp]: "expo (- x) = expo x"
  by (simp add: expo_def)

lemma ulp_uminus [simp]: "ulp (- x) = ulp x"
  by (simp add: ulp_def)

lemma fl_zero [simp]: "fl 0 = 0"
  by (simp add: fl_def)

lemma fl_uminus: "fl (- x) = - fl x"
  by (simp add: fl_def round_even_uminus)

lemma fl_err: "\<bar>fl x - x\<bar> \<le> ulp x / 2"
proof (cases "x = 0")
  case True
  then show ?thesis using ulp_pos[of 0] by simp
next
  case False
  let ?u = "ulp x"
  have u: "0 < ?u" by (rule ulp_pos)
  have "fl x - x = ?u * (of_int (round_even (x / ?u)) - x / ?u)"
    using False u by (simp add: fl_def algebra_simps)
  then have "\<bar>fl x - x\<bar> = ?u * \<bar>x / ?u - of_int (round_even (x / ?u))\<bar>"
    using u by (simp add: abs_mult abs_minus_commute)
  also have "\<dots> \<le> ?u * (1 / 2)"
    using u round_even_near[of "x / ?u"] by (intro mult_left_mono) simp_all
  finally show ?thesis by simp
qed

lemma half_ulp_le: 
  assumes "x \<noteq> 0"
  shows "ulp x / 2 \<le> eps * \<bar>x\<bar>"
proof -
  have "ulp x / 2 = 2 powr (of_int (expo x)) * 2 powr (- 53)"
    unfolding ulp_def by (simp add: powr_diff powr_minus field_simps)
  also have "\<dots> \<le> \<bar>x\<bar> * 2 powr (- 53)"
    using expo_bounds(1)[OF assms] by (intro mult_right_mono) simp_all
  finally show ?thesis by (simp add: eps_def mult.commute)
qed

lemma fl_rel: "\<bar>fl x - x\<bar> \<le> eps * \<bar>x\<bar>"
proof (cases "x = 0")
  case True
  then show ?thesis by simp
next
  case False
  from fl_err[of x] half_ulp_le[OF False] show ?thesis by simp
qed


lemma eps_small: "eps \<le> 1 / 2 ^ 53"
  unfolding eps_def by (simp add: powr_minus powr_realpow[symmetric] field_simps)

lemma fl_upper: "0 \<le> x \<Longrightarrow> fl x \<le> x * (1 + eps)"
  using fl_rel[of x] by (simp add: algebra_simps abs_if split: if_splits)

lemma fl_lower: "0 \<le> x \<Longrightarrow> x * (1 - eps) \<le> fl x"
  using fl_rel[of x] by (simp add: algebra_simps abs_if split: if_splits)

lemma scaled_range:
  assumes "0 < x"
  shows "2 ^ 52 \<le> x / ulp x" and "x / ulp x < 2 ^ 53"
proof -
  have x: "x \<noteq> 0" "\<bar>x\<bar> = x" using assms by simp_all
  have u: "ulp x = 2 powr (of_int (expo x)) / 2 ^ 52"
    unfolding ulp_def by (simp add: powr_diff powr_realpow[symmetric])
  have p: "0 < 2 powr (of_int (expo x) :: real)" by simp
  from expo_bounds(1)[OF x(1)] x(2) have "2 powr (of_int (expo x)) \<le> x" by simp
  then have "1 \<le> x / 2 powr (of_int (expo x))" using p by (simp add: field_simps)
  then show "2 ^ 52 \<le> x / ulp x" unfolding u by (simp add: field_simps)
  from expo_bounds(2)[OF x(1)] x(2) have "x < 2 powr (of_int (expo x)) * 2"
    by (simp add: powr_add)
  then have "x / 2 powr (of_int (expo x)) < 2" using p by (simp add: field_simps)
  then show "x / ulp x < 2 ^ 53" unfolding u by (simp add: field_simps)
qed

lemma fl_range:
  assumes "0 < x"
  shows "2 powr (of_int (expo x)) \<le> fl x" and "fl x \<le> 2 powr (of_int (expo x) + 1)"
proof -
  have u: "ulp x = 2 powr (of_int (expo x)) / 2 ^ 52"
    unfolding ulp_def by (simp add: powr_diff powr_realpow[symmetric])
  have "round_even (of_int (2 ^ 52)) \<le> round_even (x / ulp x)"
    using scaled_range(1)[OF assms] by (intro round_even_mono) simp
  then have lo: "(2 ^ 52 :: real) \<le> of_int (round_even (x / ulp x))"
    unfolding round_even_int by (metis of_int_le_iff of_int_numeral of_int_power)
  have "round_even (x / ulp x) \<le> round_even (of_int (2 ^ 53))"
    using scaled_range(2)[OF assms] by (intro round_even_mono) simp
  then have hi: "of_int (round_even (x / ulp x)) \<le> (2 ^ 53 :: real)"
    unfolding round_even_int by (metis of_int_le_iff of_int_numeral of_int_power)
  have f: "fl x = ulp x * of_int (round_even (x / ulp x))" using assms by (simp add: fl_def)
  have "ulp x * 2 ^ 52 \<le> fl x" unfolding f using lo ulp_pos[of x] by (intro mult_left_mono) simp_all
  then show "2 powr (of_int (expo x)) \<le> fl x" unfolding u by simp
  have "fl x \<le> ulp x * 2 ^ 53" unfolding f using hi ulp_pos[of x] by (intro mult_left_mono) simp_all
  then show "fl x \<le> 2 powr (of_int (expo x) + 1)" unfolding u by (simp add: powr_add)
qed

lemma fl_pos: "0 < x \<Longrightarrow> 0 < fl x"
  using fl_range(1)[of x] powr_gt_zero[of 2 "of_int (expo x)"] by linarith

lemma fl_nonneg: "0 \<le> x \<Longrightarrow> 0 \<le> fl x"
  using fl_pos[of x] by (cases "x = 0") (simp_all add: less_eq_real_def)

lemma expo_mono:
  assumes "0 < x" and "x \<le> y"
  shows "expo x \<le> expo y"
  unfolding expo_def using assms by (intro floor_mono) simp

lemma fl_mono_pos:
  assumes "0 < x" and "x \<le> y"
  shows "fl x \<le> fl y"
proof (cases "expo x = expo y")
  case True
  then have u: "ulp x = ulp y" by (simp add: ulp_def)
  have "x / ulp y \<le> y / ulp y" using assms(2) ulp_pos[of y] by (simp add: divide_right_mono)
  then have "round_even (x / ulp y) \<le> round_even (y / ulp y)" by (rule round_even_mono)
  then have "ulp y * of_int (round_even (x / ulp y)) \<le> ulp y * of_int (round_even (y / ulp y))"
    using ulp_pos[of y] by (intro mult_left_mono) simp_all
  with assms u show ?thesis by (simp add: fl_def)
next
  case False
  with expo_mono[OF assms] have "expo x + 1 \<le> expo y" by simp
  then have "(of_int (expo x) + 1 :: real) \<le> of_int (expo y)" by linarith
  then have "2 powr (of_int (expo x) + 1) \<le> (2::real) powr (of_int (expo y))" by simp
  moreover have "fl x \<le> 2 powr (of_int (expo x) + 1)" using assms(1) by (rule fl_range(2))
  moreover have "2 powr (of_int (expo y)) \<le> fl y" using assms by (intro fl_range(1)) simp
  ultimately show ?thesis by linarith
qed

lemma fl_mono:
  assumes "x \<le> y"
  shows "fl x \<le> fl y"
proof -
  consider "0 < x" | "x \<le> 0" "0 \<le> y" | "y < 0" by linarith
  then show ?thesis
  proof cases
    case 1
    then show ?thesis using assms by (rule fl_mono_pos)
  next
    case 2
    have "fl x \<le> 0" using fl_nonneg[of "- x"] 2(1) by (simp add: fl_uminus)
    moreover have "0 \<le> fl y" using 2(2) by (rule fl_nonneg)
    ultimately show ?thesis by simp
  next
    case 3
    have "fl (- y) \<le> fl (- x)" using 3 assms by (intro fl_mono_pos) simp_all
    then show ?thesis by (simp add: fl_uminus)
  qed
qed

lemma fl_nat_pos:
  assumes "0 < n" and "n < 2 ^ 53"
  shows "fl (real n) = real n"
proof -
  have x: "real n \<noteq> 0" "\<bar>real n\<bar> = real n" using assms by simp_all
  have "real n < 2 ^ 53" using assms(2) by (metis of_nat_less_iff of_nat_numeral of_nat_power)
  then have "real n < 2 powr 53" by (simp add: powr_realpow[symmetric])
  moreover have "2 powr (of_int (expo (real n))) \<le> real n" using expo_bounds(1)[OF x(1)] x(2) by simp
  ultimately have "(2::real) powr (of_int (expo (real n))) < 2 powr 53" by linarith
  then have "(of_int (expo (real n)) :: real) < 53" by (rule powr_less_cancel) simp
  then have e: "expo (real n) \<le> 52" by linarith
  define m where "m = nat (52 - expo (real n))"
  have me: "of_int (expo (real n)) - 52 = - real m" using e by (simp add: m_def)
  have u: "ulp (real n) = 1 / 2 ^ m"
    unfolding ulp_def me by (simp add: powr_minus powr_realpow field_simps)
  have "real n / ulp (real n) = of_int (int n * 2 ^ m)" unfolding u by simp
  then have "round_even (real n / ulp (real n)) = int n * 2 ^ m" by (simp only: round_even_int)
  then show ?thesis using x(1) by (simp add: fl_def u)
qed

lemma fl_nat: "n < 2 ^ 53 \<Longrightarrow> fl (real n) = real n"
  using fl_nat_pos[of n] by (cases "n = 0") simp_all

lemma fl_numeral_1 [simp]: "fl 1 = 1"
  using fl_nat[of 1] by simp

lemma fl_numeral_100 [simp]: "fl 100 = 100"
  using fl_nat[of 100] by simp

lemma expo_double:
  assumes "x \<noteq> 0"
  shows "expo (2 * x) = expo x + 1"
proof (rule expo_unique)
  from expo_bounds[OF assms]
  have a: "2 powr (of_int (expo x)) \<le> \<bar>x\<bar>" and b: "\<bar>x\<bar> < 2 powr (of_int (expo x) + 1)" by simp_all
  have p: "2 powr (real_of_int (expo x) + 1) = 2 * 2 powr (real_of_int (expo x))"
    by (simp add: powr_add)
  have q: "2 powr (real_of_int (expo x) + 1 + 1) = 2 * 2 powr (real_of_int (expo x) + 1)"
    by (simp add: powr_add)
  show "2 powr real_of_int (expo x + 1) \<le> \<bar>2 * x\<bar>"
    using a p by (simp add: abs_mult)
  show "\<bar>2 * x\<bar> < 2 powr (real_of_int (expo x + 1) + 1)"
    using b q by (simp add: abs_mult)
qed

lemma ulp_double: "x \<noteq> 0 \<Longrightarrow> ulp (2 * x) = 2 * ulp x"
  by (simp add: ulp_def expo_double powr_add powr_diff)

lemma fl_double: "fl (2 * x) = 2 * fl x"
proof (cases "x = 0")
  case True
  then show ?thesis by simp
next
  case False
  then show ?thesis using ulp_pos[of x] by (simp add: fl_def ulp_double)
qed

lemma fl_half: "fl (x / 2) = fl x / 2"
  using fl_double[of "x / 2"] by simp

lemma fl_numeral_half: "fl (1 / 2) = 1 / 2"
  by (simp add: fl_half)

section \<open>Properties of the frame renderer\<close>

lemmas ctx_ops = ctx_save_def ctx_restore_def ctx_translate_def ctx_rotate_def set_fillStyle_def
  set_strokeStyle_def set_globalAlpha_def set_lineWidth_def fillRect_def beginPath_def add_path_def
  ctx_clip_def ctx_fill_def ctx_stroke_def drawImage_def

lemma stack_ops:
  "stack (ctx_translate x y c) = stack c"
  "stack (ctx_rotate a c) = stack c"
  "stack (set_globalAlpha a c) = stack c"
  "stack (set_fillStyle s c) = stack c"
  "stack (drawImage img dx dy dw dh c) = stack c"
  "stack (roundedClip dx dy dw dh r c) = stack c"
  "stack (fillRect x y w h c) = stack c"
  "stack (beginPath c) = stack c"
  "stack (add_path p c) = stack c"
  "stack (ctx_fill c) = stack c"
  "stack (ctx_save c) = state c # stack c"
  by (simp_all add: ctx_ops roundedClip_def)


lemma restore_cons:
  "stack c = s # ss \<Longrightarrow> state (ctx_restore c) = s"
  "stack c = s # ss \<Longrightarrow> stack (ctx_restore c) = ss"
  by (simp_all add: ctx_restore_def)

lemma state_drawImageCore:
  "state (drawImageCore ctx img audioData canvasW canvasH props react) = state ctx"
  "stack (drawImageCore ctx img audioData canvasW canvasH props react) = stack ctx"
  by (simp_all add: drawImageCore_def Let_def stack_ops restore_cons split: option.splits prod.splits)

text \<open>
  C10: the center-image overlay leaves the ambient state of the context as it found it.
  The transform, the clip region and the alpha after the call are those before the call;
  the whole drawing state and the stack of saved states are unchanged.
\<close>

theorem C10_overlay_restores_context:
  "transform (state (drawImageCore ctx img audioData canvasW canvasH props react)) = transform (state ctx)
   \<and> clip (state (drawImageCore ctx img audioData canvasW canvasH props react)) = clip (state ctx)
   \<and> globalAlpha (state (drawImageCore ctx img audioData canvasW canvasH props react)) = globalAlpha (state ctx)
   \<and> state (drawImageCore ctx img audioData canvasW canvasH props react) = state ctx
   \<and> stack (drawImageCore ctx img audioData canvasW canvasH props react) = stack ctx"
  by (simp add: state_drawImageCore)



lemma byte_val_le: "byte_val b \<le> 255"
proof -
  have "unat b < 2 ^ LENGTH(8)" by (rule unsigned_less)
  then have "unat b \<le> 255" by simp
  then have "real (unat b) \<le> real 255" by (rule of_nat_mono)
  then show ?thesis unfolding byte_val_def by simp
qed

lemma byte_val_numeral: "byte_val 255 = 255"
  by (simp add: byte_val_def)
























subsection \<open>The radial bars\<close>

lemma Math_PI_bounds: "0 < Math_PI" "Math_PI < 2 * pi"
proof -
  show "0 < Math_PI" unfolding Math_PI_def by (rule fl_pos) (rule pi_gt_zero)
  have a: "fl pi \<le> pi * (1 + eps)" by (rule fl_upper) simp
  have e: "eps < 1" using eps_small by (simp add: field_simps)
  have b: "pi * (1 + eps) < 2 * pi" using e by simp
  show "Math_PI < 2 * pi" unfolding Math_PI_def using a b by (rule le_less_trans)
qed

lemma cap_sweep: "arc_sweep Math_PI 0 False = 2 * pi - Math_PI"
proof -
  have "\<lfloor>- Math_PI / (2 * pi)\<rfloor> = - 1"
    using Math_PI_bounds by (simp add: floor_eq_iff field_simps)
  then have "pos_mod (0 - Math_PI) (2 * pi) = 2 * pi - Math_PI"
    by (simp add: pos_mod_def)
  moreover have "\<not> 0 - Math_PI \<ge> 2 * pi" using Math_PI_bounds by simp
  ultimately show ?thesis by (simp add: arc_sweep_def)
qed

lemma cap_mid:
  assumes "0 < c"
  shows "snd (arc_mid (Arc 0 capY c Math_PI 0 False)) < capY"
proof -
  have "Math_PI + (2 * pi - Math_PI) / 2 = pi + Math_PI / 2" by (simp add: field_simps)
  then have "sin (Math_PI + arc_sweep Math_PI 0 False / 2) = - sin (Math_PI / 2)"
    by (simp add: cap_sweep)
  moreover have "0 < sin (Math_PI / 2)" using Math_PI_bounds by (intro sin_gt_zero) simp_all
  ultimately have "c * sin (Math_PI + arc_sweep Math_PI 0 False / 2) < 0"
    using assms by (simp add: mult_pos_neg)
  then show ?thesis by simp
qed

lemma thickness_ge1: "1 \<le> barVisualThickness_of R n"
  by (simp add: barVisualThickness_of_def Let_def)

lemma capRadius_bounds:
  assumes "1 \<le> T"
  shows "0 < fdiv T 2" and "fmul (fdiv T 2) 0.5 \<le> fdiv T 2"
proof -
  have "0 < T / 2" using assms by simp
  then show c: "0 < fdiv T 2" unfolding fdiv_def by (rule fl_pos)
  have "fl (fdiv T 2 * 0.5) \<le> fdiv T 2 * 0.5 * (1 + eps)" using c by (intro fl_upper) simp
  moreover have "eps \<le> 1" using eps_small by (simp add: field_simps)
  then have "fdiv T 2 * 0.5 * (1 + eps) \<le> fdiv T 2 * 0.5 * 2"
    using c by (intro mult_left_mono) simp_all
  ultimately show "fmul (fdiv T 2) 0.5 \<le> fdiv T 2" unfolding fmul_def[of "fdiv T 2"] by simp
qed

lemma drawCircularBar_cap:
  assumes "rd audioData i = Some v" and "1 \<le> barLength_of v R"
    and "barLength_of v R > fdiv T 2" and "1 \<le> T"
  shows "\<exists>st. painted (drawCircularBar audioData cx cy palette R n w T i ctx)
           = painted ctx @
              [Fill st [MoveTo (- fdiv T 2) innerRadius,
                        LineTo (- fdiv T 2) (fsub (fadd innerRadius (barLength_of v R)) (fdiv T 2)),
                        Arc 0 (fsub (fadd innerRadius (barLength_of v R)) (fdiv T 2)) (fdiv T 2) Math_PI 0 False,
                        LineTo (fdiv T 2) innerRadius,
                        ClosePath]]"
proof -
  from capRadius_bounds[OF assms(4)] assms(3)
  have c: "0 < fdiv T 2" "barLength_of v R > fmul (fdiv T 2) 0.5" by simp_all
  from assms(2) have l: "\<not> barLength_of v R < 1" by simp
  show ?thesis
    using assms(1,3) c l by (simp add: drawCircularBar_def Let_def ctx_ops)
qed

text \<open>
  C5: in the circular visualization a bar that is drawn and is longer than its cap
  radius, half of its thickness, is filled along a path of two straight sides joined by
  an arc at the outer end. The arc is \<open>arc(0, capY, capRadius, Math.PI, 0, false)\<close>: it
  runs clockwise from the angle \<open>\<pi>\<close> to the angle \<open>0\<close>, and the point halfway along it
  has an ordinate below \<open>capY\<close>. The bar grows along the positive y axis of its own
  frame, away from the center of the visualization, so the arc bends towards the
  center: the outer end of the bar is a notch cut into a rectangle that ends at
  \<open>capY\<close>, not the rounded outer cap of a capsule.
\<close>

theorem C5_cap_arc_turns_inward:
  assumes "rd audioData i = Some v" and "1 \<le> barLength_of v R"
    and "barLength_of v R > fdiv (barVisualThickness_of R n) 2"
  shows "\<exists>st capY capRadius.
           capY = fsub (fadd innerRadius (barLength_of v R)) capRadius
         \<and> capRadius = fdiv (barVisualThickness_of R n) 2
         \<and> painted (drawCircularBar audioData cx cy palette R n w (barVisualThickness_of R n) i ctx)
             = painted ctx @
                [Fill st [MoveTo (- capRadius) innerRadius, LineTo (- capRadius) capY,
                          Arc 0 capY capRadius Math_PI 0 False,
                          LineTo capRadius innerRadius, ClosePath]]
         \<and> snd (arc_mid (Arc 0 capY capRadius Math_PI 0 False)) < capY"
proof -
  from drawCircularBar_cap[OF assms thickness_ge1]
  obtain st where "painted (drawCircularBar audioData cx cy palette R n w (barVisualThickness_of R n) i ctx)
           = painted ctx @
              [Fill st [MoveTo (- fdiv (barVisualThickness_of R n) 2) innerRadius,
                        LineTo (- fdiv (barVisualThickness_of R n) 2)
                          (fsub (fadd innerRadius (barLength_of v R)) (fdiv (barVisualThickness_of R n) 2)),
                        Arc 0 (fsub (fadd innerRadius (barLength_of v R)) (fdiv (barVisualThickness_of R n) 2))
                          (fdiv (barVisualThickness_of R n) 2) Math_PI 0 False,
                        LineTo (fdiv (barVisualThickness_of R n) 2) innerRadius,
                        ClosePath]]" by blast
  moreover have "0 < fdiv (barVisualThickness_of R n) 2"
    by (rule capRadius_bounds(1)) (rule thickness_ge1)
  then have "snd (arc_mid (Arc 0 (fsub (fadd innerRadius (barLength_of v R)) (fdiv (barVisualThickness_of R n) 2))
                    (fdiv (barVisualThickness_of R n) 2) Math_PI 0 False))
              < fsub (fadd innerRadius (barLength_of v R)) (fdiv (barVisualThickness_of R n) 2)"
    by (rule cap_mid)
  ultimately show ?thesis by blast
qed


lemma fl_160: "fl 160 = 160"
  using fl_nat[of 160] by simp

lemma fl_le_nat:
  assumes "x \<le> real n" and "n < 2 ^ 53"
  shows "fl x \<le> real n"
  using fl_mono[OF assms(1)] fl_nat[OF assms(2)] by simp

lemma thin_bars: "barVisualThickness_of 162 1000 = 1"
proof -
  have "pi \<le> real 4" using pi_less_4 by simp
  then have "fl pi \<le> real 4" by (rule fl_le_nat) simp
  then have p: "Math_PI * 2 \<le> real 8" by (simp add: Math_PI_def)
  have p0: "0 \<le> fmul Math_PI 2"
    unfolding fmul_def using Math_PI_bounds(1) by (intro fl_nonneg) simp
  have a: "fmul Math_PI 2 \<le> real 8" unfolding fmul_def using p by (rule fl_le_nat) simp
  have "fl 81 = 81" using fl_nat[of 81] by simp
  then have h: "fmul 162 0.5 = 81" by (simp add: fmul_def)
  have "fmul Math_PI 2 * 81 \<le> real 648" using a by simp
  then have b: "fmul (fmul Math_PI 2) (fmul 162 0.5) \<le> real 648"
    unfolding h fmul_def[of "fmul Math_PI 2"] by (rule fl_le_nat) simp
  have b0: "0 \<le> fmul (fmul Math_PI 2) (fmul 162 0.5)"
    unfolding h fmul_def[of "fmul Math_PI 2"] using p0 by (intro fl_nonneg) simp
  have "fmul (fmul Math_PI 2) (fmul 162 0.5) / 1000 \<le> real 1" using b by simp
  then have c: "fdiv (fmul (fmul Math_PI 2) (fmul 162 0.5)) 1000 \<le> real 1"
    unfolding fdiv_def by (rule fl_le_nat) simp
  have c0: "0 \<le> fdiv (fmul (fmul Math_PI 2) (fmul 162 0.5)) 1000"
    unfolding fdiv_def using b0 by (intro fl_nonneg) simp
  have "fl 0.85 \<le> real 1" by (rule fl_le_nat) simp_all
  moreover have "0 \<le> fl 0.85" by (rule fl_nonneg) simp
  ultimately have "fdiv (fmul (fmul Math_PI 2) (fmul 162 0.5)) 1000 * fl 0.85 \<le> 1 * 1"
    using c c0 by (intro mult_mono) simp_all
  then have "fdiv (fmul (fmul Math_PI 2) (fmul 162 0.5)) 1000 * fl 0.85 \<le> real 1" by simp
  then have "fmul (fdiv (fmul (fmul Math_PI 2) (fmul 162 0.5)) 1000) (fl 0.85) \<le> real 1"
    unfolding fmul_def[of "fdiv _ _"] by (rule fl_le_nat) simp
  then show ?thesis by (simp add: barVisualThickness_of_def Let_def)
qed

theorem C5_cap_arc_turns_inward_witness:
  "rd [255] 0 = Some 255 \<and> 1 \<le> barLength_of 255 162
   \<and> barLength_of 255 162 > fdiv (barVisualThickness_of 162 1000) 2
   \<and> (\<exists>st capY capRadius.
           capY = fsub (fadd innerRadius (barLength_of 255 162)) capRadius
         \<and> capRadius = fdiv (barVisualThickness_of 162 1000) 2
         \<and> painted (drawCircularBar [255] 150 150 (PALETTES sky) 162 1000 (fdiv (fmul Math_PI 2) 1000)
                      (barVisualThickness_of 162 1000) 0 newContext)
             = painted newContext @
                [Fill st [MoveTo (- capRadius) innerRadius, LineTo (- capRadius) capY,
                          Arc 0 capY capRadius Math_PI 0 False,
                          LineTo capRadius innerRadius, ClosePath]]
         \<and> snd (arc_mid (Arc 0 capY capRadius Math_PI 0 False)) < capY)"
proof -
  have r: "rd [255] 0 = Some 255" by (simp add: rd_def byte_val_numeral)
  have b: "barLength_of 255 162 = 160"
    by (simp add: barLength_of_def innerRadius_def fmul_def fdiv_def fsub_def fl_160)
  have l: "1 \<le> barLength_of 255 162" by (simp add: b)
  have c: "barLength_of 255 162 > fdiv (barVisualThickness_of 162 1000) 2"
    by (simp add: b thin_bars fdiv_def fl_numeral_half)
  from C5_cap_arc_turns_inward[OF r l c, of 150 150 "PALETTES sky" "fdiv (fmul Math_PI 2) 1000" newContext] r l c
  show ?thesis by blast
qed

end
